theory Spec2Isabelle
  imports Main "HOL-Library.Sublist"
begin

section \<open>JavaScript values and strings\<close>

text \<open>
  The notifier of \<^verbatim>\<open>src/slack.ts\<close> is straight-line TypeScript: two classes, \<^verbatim>\<open>Block\<close>
  and \<^verbatim>\<open>Slack\<close>, whose methods assemble strings and plain objects. Strings are
  \<^typ>\<open>string\<close>, an optional value (\<^verbatim>\<open>undefined\<close>, \<^verbatim>\<open>null\<close>) is \<^typ>\<open>'a option\<close>, a thrown
  exception or a rejected promise is the left summand of a sum type, and the outbound
  network calls are recorded in a list, in the order in which they are made.
\<close>

datatype error =
    TypeError            \<comment> \<open>raised by the runtime: a property read on \<^verbatim>\<open>undefined\<close>\<close>
  | UpstreamError string \<comment> \<open>whatever the source-hosting client or the webhook client throws\<close>
  | Error string         \<comment> \<open>\<^verbatim>\<open>new Error(message)\<close>\<close>

text \<open>The line feed of the template literals.\<close>

definition LF :: char where
  "LF = CHR 0x0A"

text \<open>
  A template literal renders a string as itself and \<^verbatim>\<open>undefined\<close> as the nine letters
  of that word.
\<close>

definition template_text :: "string option \<Rightarrow> string" where
  "template_text v = (case v of None \<Rightarrow> ''undefined'' | Some s \<Rightarrow> s)"

text \<open>A pull request number in a template literal is rendered in decimal.\<close>

fun decimal :: "nat \<Rightarrow> string" where
  "decimal n =
     (if n < 10 then [char_of (48 + n)]
      else decimal (n div 10) @ [char_of (48 + n mod 10)])"

declare decimal.simps [simp del]

definition template_number :: "nat option \<Rightarrow> string" where
  "template_number v = (case v of None \<Rightarrow> ''undefined'' | Some n \<Rightarrow> decimal n)"

text \<open>
  \<^verbatim>\<open>s.replace(/refs\/heads\//, '')\<close>: the regular expression has no anchor, no flag and,
  once the slashes are unescaped, no metacharacter, so the call replaces the leftmost
  occurrence of the literal pattern, wherever it is, and leaves a string without
  occurrence as it is.
\<close>

fun replace_first :: "string \<Rightarrow> string \<Rightarrow> string \<Rightarrow> string" where
  "replace_first pat rep [] = (if pat = [] then rep else [])"
| "replace_first pat rep (c # cs) =
     (if prefix pat (c # cs) then rep @ drop (length pat) (c # cs)
      else c # replace_first pat rep cs)"

text \<open>\<^verbatim>\<open>s.split('\n')[0]\<close>: the text before the first line feed (all of it when there is none).\<close>

definition first_line :: "string \<Rightarrow> string" where
  "first_line s = takeWhile (\<lambda>c. c \<noteq> LF) s"

text \<open>Truthiness of a \<^verbatim>\<open>string\<close> and of a \<^verbatim>\<open>string | undefined\<close>.\<close>

definition truthy :: "string \<Rightarrow> bool" where
  "truthy s = (s \<noteq> [])"

definition truthy_opt :: "string option \<Rightarrow> bool" where
  "truthy_opt v = (case v of None \<Rightarrow> False | Some s \<Rightarrow> truthy s)"

section \<open>The data of the notifier\<close>

record Accessory =
  color :: string
  result :: string

text \<open>
  The event context of \<^verbatim>\<open>@actions/github\<close>, with the parts the notifier reads:
  \<^verbatim>\<open>context.repo.owner\<close>, \<^verbatim>\<open>context.repo.repo\<close> and \<^verbatim>\<open>context.issue.number\<close> are flattened
  into the record; the number is absent when the event carries none.
\<close>

record Context =
  sha :: string
  eventName :: string
  workflow :: string
  ref :: string
  actor :: string
  repo_owner :: string
  repo_repo :: string
  issue_number :: "nat option"

record MrkdwnElement =
  el_type :: string
  el_text :: string

text \<open>The answer of \<^verbatim>\<open>client.repos.getCommit\<close>, with the parts the notifier reads.\<close>

record CommitAuthor =
  login :: string
  author_html_url :: string

record Commit =
  commit_message :: string          \<comment> \<open>\<^verbatim>\<open>commit.commit.message\<close>\<close>
  html_url :: string                \<comment> \<open>\<^verbatim>\<open>commit.html_url\<close>\<close>
  author :: "CommitAuthor option"   \<comment> \<open>\<^verbatim>\<open>commit.author\<close>, \<^verbatim>\<open>null\<close> for a committer unknown to the platform\<close>

text \<open>
  The section block starts as \<^verbatim>\<open>{type: 'section'}\<close> and receives either a \<^verbatim>\<open>text\<close> or a
  \<^verbatim>\<open>fields\<close> property.
\<close>

record SectionBlock =
  block_type :: string
  block_text :: "MrkdwnElement option"
  block_fields :: "MrkdwnElement list option"

record MessageAttachment =
  attachment_color :: "string option"
  blocks :: "SectionBlock list"

record Payload =
  payload_text :: string
  attachments :: "MessageAttachment list"
  unfurl_links :: bool

text \<open>
  An outbound network call: the commit lookup with its token, owner, repository and ref,
  or the delivery to the webhook.
\<close>

datatype net_call =
    GetCommit string string string string
  | WebhookSend string Payload

text \<open>
  What a \<^verbatim>\<open>Block\<close> reads from outside: the event context, the environment variable
  \<^verbatim>\<open>GITHUB_HEAD_REF\<close> (absent when the variable is not set) and the source-hosting API,
  a function of the token, the owner, the repository and the ref.
\<close>

record World =
  github_context :: Context
  GITHUB_HEAD_REF :: "string option"
  getCommit :: "string \<Rightarrow> string \<Rightarrow> string \<Rightarrow> string \<Rightarrow> error + Commit"

section \<open>The class Block\<close>

definition success :: Accessory where
  "success = \<lparr>color = ''#2cbe4e'', result = ''Succeeded''\<rparr>"

definition failure :: Accessory where
  "failure = \<lparr>color = ''#cb2431'', result = ''Failed''\<rparr>"

definition cancelled :: Accessory where
  "cancelled = \<lparr>color = ''#ffc107'', result = ''Cancelled''\<rparr>"

definition isPullRequest :: "Context \<Rightarrow> bool" where
  "isPullRequest c = (eventName c = ''pull_request'')"

definition mrkdwn :: "string \<Rightarrow> MrkdwnElement" where
  "mrkdwn t = \<lparr>el_type = ''mrkdwn'', el_text = t\<rparr>"

definition repoUrl :: "Context \<Rightarrow> string" where
  "repoUrl c = ''https://github.com/'' @ repo_owner c @ ''/'' @ repo_repo c"

definition eventUrl :: "Context \<Rightarrow> string" where
  "eventUrl c =
     (if isPullRequest c
      then ''<'' @ repoUrl c @ ''/pull/'' @ template_number (issue_number c) @ ''|''
             @ eventName c @ ''>''
      else eventName c)"

definition actionUrl :: "Context \<Rightarrow> string" where
  "actionUrl c =
     (if isPullRequest c
      then repoUrl c @ ''/pull/'' @ template_number (issue_number c) @ ''/checks''
      else repoUrl c @ ''/commit/'' @ sha c @ ''/checks'')"

definition repositoryField :: "Context \<Rightarrow> MrkdwnElement" where
  "repositoryField c =
     mrkdwn (''*repository*'' @ [LF] @ ''<'' @ repoUrl c @ ''|'' @ repo_owner c @ ''/''
             @ repo_repo c @ ''>'')"

definition refField :: "Context \<Rightarrow> MrkdwnElement" where
  "refField c = mrkdwn (''*ref*'' @ [LF] @ ref c)"

definition eventField :: "Context \<Rightarrow> MrkdwnElement" where
  "eventField c = mrkdwn (''*event name*'' @ [LF] @ eventUrl c)"

definition workflowField :: "Context \<Rightarrow> MrkdwnElement" where
  "workflowField c =
     mrkdwn (''*workflow*'' @ [LF] @ ''<'' @ actionUrl c @ ''|'' @ workflow c @ ''>'')"

definition baseFields :: "Context \<Rightarrow> MrkdwnElement list" where
  "baseFields c = [repositoryField c, refField c, eventField c, workflowField c]"

text \<open>
  The ref that \<^verbatim>\<open>getCommitFields\<close> asks the API for. On a pull request event the method
  calls \<^verbatim>\<open>replace\<close> on the environment variable, which throws when the variable is not set.
\<close>

definition commitRef :: "World \<Rightarrow> error + string" where
  "commitRef w =
     (if isPullRequest (github_context w)
      then (case GITHUB_HEAD_REF w of
              None \<Rightarrow> Inl TypeError
            | Some head_ref \<Rightarrow> Inr (replace_first ''refs/heads/'' '''' head_ref))
      else Inr (sha (github_context w)))"

definition commitField :: "Commit \<Rightarrow> MrkdwnElement" where
  "commitField commit =
     mrkdwn (''*commit*'' @ [LF] @ ''<'' @ html_url commit @ ''|''
             @ first_line (commit_message commit) @ ''>'')"

definition authorField :: "CommitAuthor \<Rightarrow> MrkdwnElement" where
  "authorField a =
     mrkdwn (''*author*'' @ [LF] @ ''<'' @ author_html_url a @ ''|'' @ login a @ ''>'')"

definition commitFieldsOf :: "Commit \<Rightarrow> MrkdwnElement list" where
  "commitFieldsOf commit =
     [commitField commit]
     @ (case author commit of None \<Rightarrow> [] | Some a \<Rightarrow> [authorField a])"

text \<open>
  \<^verbatim>\<open>getCommitFields(token)\<close> returns the network calls it made and either the error it
  threw or its fields.
\<close>

definition getCommitFields ::
  "World \<Rightarrow> string \<Rightarrow> net_call list \<times> (error + MrkdwnElement list)" where
  "getCommitFields w token =
     (case commitRef w of
        Inl e \<Rightarrow> ([], Inl e)
      | Inr r \<Rightarrow>
          (let owner = repo_owner (github_context w);
               repo = repo_repo (github_context w);
               call = GetCommit token owner repo r
           in case getCommit w token owner repo r of
                Inl e \<Rightarrow> ([call], Inl e)
              | Inr commit \<Rightarrow> ([call], Inr (commitFieldsOf commit))))"

definition getCompactModeTextField :: "Context \<Rightarrow> string option \<Rightarrow> MrkdwnElement" where
  "getCompactModeTextField c res =
     mrkdwn (''[<'' @ repoUrl c @ ''|'' @ repo_owner c @ ''/'' @ repo_repo c @ ''>] ''
             @ template_text res @ '' by '' @ actor c @ '' on '' @ ref c @ '', check <''
             @ repoUrl c @ ''/commit/'' @ sha c @ ''/checks'' @ ''|'' @ workflow c @ ''>'')"

definition getReleaseModeTextField :: "string \<Rightarrow> MrkdwnElement" where
  "getReleaseModeTextField created_tag =
     mrkdwn (''https://github.com/weseek/growi/releases/tag/'' @ created_tag)"

subsection \<open>Reading a member of a Block by a computed name\<close>

text \<open>
  \<^verbatim>\<open>slackBlockUI[status]\<close> reads the property of the \<^verbatim>\<open>Block\<close> instance that the status
  string names. The instance has one own property (\<^verbatim>\<open>context\<close>), its class has the three
  accessory getters, two further getters and three methods, and everything else comes
  from \<^verbatim>\<open>Object.prototype\<close>. Any other name reads as \<^verbatim>\<open>undefined\<close>.
\<close>

datatype member =
    AccessoryV Accessory
  | ContextV Context
  | BooleanV bool
  | FieldsV "MrkdwnElement list"
  | FunctionV string
  | PrototypeV
  | UndefinedV

definition Block_methods :: "string list" where
  "Block_methods =
     [''constructor'', ''getCommitFields'', ''getCompactModeTextField'',
      ''getReleaseModeTextField'']"

definition Object_prototype_functions :: "string list" where
  "Object_prototype_functions =
     [''hasOwnProperty'', ''isPrototypeOf'', ''propertyIsEnumerable'', ''toLocaleString'',
      ''toString'', ''valueOf'', ''__defineGetter__'', ''__defineSetter__'',
      ''__lookupGetter__'', ''__lookupSetter__'']"

definition Block_member :: "Context \<Rightarrow> string \<Rightarrow> member" where
  "Block_member c name =
     (if name = ''success'' then AccessoryV success
      else if name = ''failure'' then AccessoryV failure
      else if name = ''cancelled'' then AccessoryV cancelled
      else if name = ''context'' then ContextV c
      else if name = ''isPullRequest'' then BooleanV (isPullRequest c)
      else if name = ''baseFields'' then FieldsV (baseFields c)
      else if name \<in> set Block_methods then FunctionV name
      else if name \<in> set Object_prototype_functions then FunctionV name
      else if name = ''__proto__'' then PrototypeV
      else UndefinedV)"

text \<open>The names under which \<^const>\<open>Block_member\<close> finds a property.\<close>

definition Block_property_names :: "string list" where
  "Block_property_names =
     [''success'', ''failure'', ''cancelled'', ''context'', ''isPullRequest'', ''baseFields'']
     @ Block_methods @ Object_prototype_functions @ [''__proto__'']"

text \<open>
  \<^verbatim>\<open>const {result} = notificationType\<close> and \<^verbatim>\<open>notificationType.color\<close>: reading a property
  of \<^verbatim>\<open>undefined\<close> throws; a value that is not an accessory has neither property.
\<close>

definition member_result :: "member \<Rightarrow> error + string option" where
  "member_result m =
     (case m of
        UndefinedV \<Rightarrow> Inl TypeError
      | AccessoryV a \<Rightarrow> Inr (Some (result a))
      | _ \<Rightarrow> Inr None)"

definition member_color :: "member \<Rightarrow> string option" where
  "member_color m = (case m of AccessoryV a \<Rightarrow> Some (color a) | _ \<Rightarrow> None)"

section \<open>The class Slack\<close>

definition isMention :: "string \<Rightarrow> string \<Rightarrow> bool" where
  "isMention condition status = (condition = ''always'' \<or> condition = status)"

definition section_text :: "MrkdwnElement \<Rightarrow> SectionBlock" where
  "section_text t = \<lparr>block_type = ''section'', block_text = Some t, block_fields = None\<rparr>"

definition section_fields :: "MrkdwnElement list \<Rightarrow> SectionBlock" where
  "section_fields fs = \<lparr>block_type = ''section'', block_text = None, block_fields = Some fs\<rparr>"

definition summary_text :: "string \<Rightarrow> string \<Rightarrow> string \<Rightarrow> string \<Rightarrow> string option \<Rightarrow> string"
  where
  "summary_text jobName status mention mentionCondition res =
     (let tmpText = jobName @ '' '' @ template_text res
      in if truthy mention \<and> isMention mentionCondition status
         then ''<!'' @ mention @ ''> '' @ tmpText
         else tmpText)"

definition wrap_payload :: "string \<Rightarrow> string option \<Rightarrow> SectionBlock \<Rightarrow> Payload" where
  "wrap_payload txt col baseBlock =
     \<lparr>payload_text = txt,
      attachments = [\<lparr>attachment_color = col, blocks = [baseBlock]\<rparr>],
      unfurl_links = True\<rparr>"

text \<open>
  \<^verbatim>\<open>commitFlag && token\<close> guards the commit lookup: the branch is taken with the token
  when the flag is set and the token is a non-empty string.
\<close>

definition guard_token :: "bool \<Rightarrow> string option \<Rightarrow> string option" where
  "guard_token commitFlag token =
     (if commitFlag
      then (case token of None \<Rightarrow> None | Some t \<Rightarrow> if truthy t then Some t else None)
      else None)"

text \<open>
  \<^verbatim>\<open>generatePayload\<close>: the network calls made, and the error thrown or the payload.
\<close>

definition generatePayload ::
  "World \<Rightarrow> string \<Rightarrow> string \<Rightarrow> string \<Rightarrow> string \<Rightarrow> bool \<Rightarrow> bool \<Rightarrow> bool \<Rightarrow> string
     \<Rightarrow> string option \<Rightarrow> net_call list \<times> (error + Payload)" where
  "generatePayload w jobName status mention mentionCondition commitFlag isCompactMode
       isReleaseMode created_tag token =
     (let notificationType = Block_member (github_context w) status
      in case member_result notificationType of
           Inl e \<Rightarrow> ([], Inl e)
         | Inr res \<Rightarrow>
             (let txt = summary_text jobName status mention mentionCondition res;
                  col = member_color notificationType
              in if isCompactMode
                 then ([], Inr (wrap_payload txt col
                          (section_text (getCompactModeTextField (github_context w) res))))
                 else if isReleaseMode
                 then ([], Inr (wrap_payload txt col
                          (section_text (getReleaseModeTextField created_tag))))
                 else (case guard_token commitFlag token of
                         Some t \<Rightarrow>
                           (case getCommitFields w t of
                              (calls, Inl e) \<Rightarrow> (calls, Inl e)
                            | (calls, Inr commitFields) \<Rightarrow>
                                (calls, Inr (wrap_payload txt col
                                   (section_fields
                                      (baseFields (github_context w) @ commitFields)))))
                       | None \<Rightarrow>
                           ([], Inr (wrap_payload txt col
                              (section_fields (baseFields (github_context w))))))))"

text \<open>
  \<^verbatim>\<open>notify\<close>: one call of the webhook client, which throws or answers with an
  acknowledgement text; any text other than \<^verbatim>\<open>ok\<close> is thrown as an \<^verbatim>\<open>Error\<close>.
\<close>

definition failure_message :: "string \<Rightarrow> string" where
  "failure_message ack =
     [LF] @ ''      Failed to send notification to Slack'' @ [LF]
     @ ''      Response: '' @ ack @ [LF] @ ''      ''"

definition notify ::
  "(string \<Rightarrow> 'o \<Rightarrow> Payload \<Rightarrow> error + string) \<Rightarrow> string \<Rightarrow> 'o \<Rightarrow> Payload
     \<Rightarrow> net_call list \<times> (error + unit)" where
  "notify send url options payload =
     (case send url options payload of
        Inl e \<Rightarrow> ([WebhookSend url payload], Inl e)
      | Inr response_text \<Rightarrow>
          if response_text \<noteq> ''ok''
          then ([WebhookSend url payload], Inl (Error (failure_message response_text)))
          else ([WebhookSend url payload], Inr ()))"

section \<open>Sample inputs\<close>

text \<open>
  A push event and a pull request event on one repository, a commit whose author is known
  to the platform and one whose author is not, and the worlds built from them. They are
  the concrete inputs at which the theorems below are evaluated.
\<close>

definition push_context :: Context where
  "push_context =
     \<lparr>sha = ''a1b2c3d'', eventName = ''push'', workflow = ''CI'', ref = ''refs/heads/main'',
      actor = ''octocat'', repo_owner = ''weseek'', repo_repo = ''slatify'',
      issue_number = None\<rparr>"

definition pr_context :: Context where
  "pr_context =
     \<lparr>sha = ''e4f5a6b'', eventName = ''pull_request'', workflow = ''CI'',
      ref = ''refs/pull/7/merge'', actor = ''octocat'', repo_owner = ''weseek'',
      repo_repo = ''slatify'', issue_number = Some 7\<rparr>"

definition signed_commit :: Commit where
  "signed_commit =
     \<lparr>commit_message = ''Fix typo'' @ [LF] @ [LF] @ ''Long text'',
      html_url = ''https://github.com/weseek/slatify/commit/a1b2c3d'',
      author = Some \<lparr>login = ''octocat'', author_html_url = ''https://github.com/octocat''\<rparr>\<rparr>"

definition anonymous_commit :: Commit where
  "anonymous_commit = signed_commit\<lparr>author := None\<rparr>"

definition push_world :: World where
  "push_world =
     \<lparr>github_context = push_context, GITHUB_HEAD_REF = None,
      getCommit = (\<lambda>token owner repo r. Inr signed_commit)\<rparr>"

definition anonymous_world :: World where
  "anonymous_world = push_world\<lparr>getCommit := (\<lambda>token owner repo r. Inr anonymous_commit)\<rparr>"

definition pr_world :: "string \<Rightarrow> World" where
  "pr_world head_ref =
     \<lparr>github_context = pr_context, GITHUB_HEAD_REF = Some head_ref,
      getCommit = (\<lambda>token owner repo r. Inr signed_commit)\<rparr>"

definition acknowledge :: "string \<Rightarrow> string \<Rightarrow> unit \<Rightarrow> Payload \<Rightarrow> error + string" where
  "acknowledge ack url options payload = Inr ack"

section \<open>Evaluating the definitions\<close>

lemmas sample_defs =
  push_world_def anonymous_world_def pr_world_def push_context_def pr_context_def
  signed_commit_def anonymous_commit_def acknowledge_def

lemmas run_defs =
  generatePayload_def getCommitFields_def commitRef_def guard_token_def truthy_def
  member_result_def member_color_def Block_member_def Block_methods_def
  Object_prototype_functions_def success_def failure_def cancelled_def isPullRequest_def
  summary_text_def isMention_def template_text_def Let_def

section \<open>The shape of a generated payload\<close>

lemma member_result_success:
  "member_result (Block_member c ''success'') = Inr (Some ''Succeeded'')"
  by (simp add: member_result_def Block_member_def success_def)

lemma member_result_failure:
  "member_result (Block_member c ''failure'') = Inr (Some ''Failed'')"
  by (simp add: member_result_def Block_member_def failure_def)

lemma member_result_cancelled:
  "member_result (Block_member c ''cancelled'') = Inr (Some ''Cancelled'')"
  by (simp add: member_result_def Block_member_def cancelled_def)

text \<open>
  Every payload that \<^const>\<open>generatePayload\<close> returns is one wrapped section block, with
  the summary text and the colour read from the member that the status names.
\<close>

lemma generatePayload_shape:
  assumes "snd (generatePayload w jobName status mention mentionCondition commitFlag
                  isCompactMode isReleaseMode created_tag token) = Inr p"
  shows "\<exists>res blk. member_result (Block_member (github_context w) status) = Inr res
           \<and> p = wrap_payload (summary_text jobName status mention mentionCondition res)
                   (member_color (Block_member (github_context w) status)) blk"
  using assms
  by (auto simp: generatePayload_def Let_def
           split: sum.splits if_splits option.splits prod.splits)

lemma generatePayload_undefined:
  assumes "member_result (Block_member (github_context w) status) = Inl e"
  shows "generatePayload w jobName status mention mentionCondition commitFlag isCompactMode
           isReleaseMode created_tag token = ([], Inl e)"
  using assms by (simp add: generatePayload_def Let_def)

lemma generatePayload_compact:
  assumes "member_result (Block_member (github_context w) status) = Inr res"
  shows "generatePayload w jobName status mention mentionCondition commitFlag True
           isReleaseMode created_tag token =
         ([], Inr (wrap_payload (summary_text jobName status mention mentionCondition res)
                     (member_color (Block_member (github_context w) status))
                     (section_text (getCompactModeTextField (github_context w) res))))"
  using assms by (simp add: generatePayload_def Let_def)

lemma generatePayload_release:
  assumes "member_result (Block_member (github_context w) status) = Inr res"
  shows "generatePayload w jobName status mention mentionCondition commitFlag False
           True created_tag token =
         ([], Inr (wrap_payload (summary_text jobName status mention mentionCondition res)
                     (member_color (Block_member (github_context w) status))
                     (section_text (getReleaseModeTextField created_tag))))"
  using assms by (simp add: generatePayload_def Let_def)

lemma generatePayload_full_plain:
  assumes "member_result (Block_member (github_context w) status) = Inr res"
    and "guard_token commitFlag token = None"
  shows "generatePayload w jobName status mention mentionCondition commitFlag False
           False created_tag token =
         ([], Inr (wrap_payload (summary_text jobName status mention mentionCondition res)
                     (member_color (Block_member (github_context w) status))
                     (section_fields (baseFields (github_context w)))))"
  using assms by (simp add: generatePayload_def Let_def)

lemma generatePayload_full_commit:
  assumes "member_result (Block_member (github_context w) status) = Inr res"
    and "guard_token commitFlag token = Some t"
  shows "generatePayload w jobName status mention mentionCondition commitFlag False
           False created_tag token =
         (case getCommitFields w t of
            (calls, Inl e) \<Rightarrow> (calls, Inl e)
          | (calls, Inr commitFields) \<Rightarrow>
              (calls, Inr (wrap_payload
                     (summary_text jobName status mention mentionCondition res)
                     (member_color (Block_member (github_context w) status))
                     (section_fields (baseFields (github_context w) @ commitFields)))))"
  using assms by (simp add: generatePayload_def Let_def)

lemma guard_token_Some:
  "guard_token commitFlag token = Some t \<longleftrightarrow> commitFlag \<and> token = Some t \<and> t \<noteq> []"
  by (auto simp: guard_token_def truthy_def split: option.splits)

lemma guard_token_None:
  "guard_token commitFlag token = None \<longleftrightarrow> \<not> (commitFlag \<and> truthy_opt token)"
  by (auto simp: guard_token_def truthy_opt_def split: option.splits)

section \<open>The mention marker\<close>

text \<open>
  Claim C1. Whenever \<^const>\<open>generatePayload\<close> returns a payload, its summary text is the
  mention marker \<^verbatim>\<open><!mention> \<close> followed by \<^verbatim>\<open>jobName label\<close> if the mention string is
  not empty and the mention condition is \<^verbatim>\<open>always\<close> or equals the status, and it is
  \<^verbatim>\<open>jobName label\<close> alone otherwise; so the marker is prepended if and only if that
  condition holds. The label is the \<^verbatim>\<open>result\<close> read from the member the status names.
\<close>

theorem mention_prepended_iff:
  assumes "snd (generatePayload w jobName status mention mentionCondition commitFlag
                  isCompactMode isReleaseMode created_tag token) = Inr p"
  shows "\<exists>label. member_result (Block_member (github_context w) status) = Inr label
           \<and> payload_text p =
               (if mention \<noteq> [] \<and> (mentionCondition = ''always'' \<or> mentionCondition = status)
                then ''<!'' @ mention @ ''> '' @ jobName @ '' '' @ template_text label
                else jobName @ '' '' @ template_text label)
           \<and> (payload_text p = ''<!'' @ mention @ ''> '' @ jobName @ '' '' @ template_text label
                \<longleftrightarrow> mention \<noteq> [] \<and> (mentionCondition = ''always'' \<or> mentionCondition = status))"
proof -
  from generatePayload_shape [OF assms] obtain res blk
    where hres: "member_result (Block_member (github_context w) status) = Inr res"
      and hp: "p = wrap_payload (summary_text jobName status mention mentionCondition res)
                   (member_color (Block_member (github_context w) status)) blk"
    by blast
  have htext: "payload_text p = summary_text jobName status mention mentionCondition res"
    by (simp add: hp wrap_payload_def)
  have neq: "jobName @ '' '' @ template_text res
               \<noteq> ''<!'' @ mention @ ''> '' @ jobName @ '' '' @ template_text res"
  proof
    assume "jobName @ '' '' @ template_text res
              = ''<!'' @ mention @ ''> '' @ jobName @ '' '' @ template_text res"
    then have "length (jobName @ '' '' @ template_text res)
                 = length (''<!'' @ mention @ ''> '' @ jobName @ '' '' @ template_text res)"
      by (rule arg_cong)
    then show False by simp
  qed
  show ?thesis
    using hres htext neq
    by (auto simp: summary_text_def Let_def truthy_def isMention_def)
qed

text \<open>
  A failed job with mention \<^verbatim>\<open>channel\<close> and condition \<^verbatim>\<open>always\<close>: the text starts with
  \<^verbatim>\<open><!channel> \<close>.
\<close>

theorem mention_prepended_iff_witness:
  "snd (generatePayload push_world ''deploy'' ''failure'' ''channel'' ''always'' False False
          False [] None)
     = Inr (wrap_payload ''<!channel> deploy Failed'' (Some ''#cb2431'')
              (section_fields (baseFields push_context)))
   \<and> payload_text (wrap_payload ''<!channel> deploy Failed'' (Some ''#cb2431'')
                     (section_fields (baseFields push_context)))
       = ''<!'' @ ''channel'' @ ''> '' @ ''deploy'' @ '' '' @ ''Failed''"
proof -
  let ?p = "wrap_payload ''<!channel> deploy Failed'' (Some ''#cb2431'')
              (section_fields (baseFields push_context))"
  have run: "snd (generatePayload push_world ''deploy'' ''failure'' ''channel'' ''always''
                    False False False [] None) = Inr ?p"
    by (simp add: run_defs sample_defs)
  from mention_prepended_iff [OF run] obtain label
    where l: "member_result (Block_member (github_context push_world) ''failure'') = Inr label"
      and t: "payload_text ?p
                = ''<!'' @ ''channel'' @ ''> '' @ ''deploy'' @ '' '' @ template_text label"
    by auto
  from l have "label = Some ''Failed''"
    by (simp add: member_result_failure)
  with t run show ?thesis
    by (simp add: template_text_def)
qed

section \<open>The accessory of a status\<close>

text \<open>
  Claim C2. The accessory that a status resolves to is the fixed pair of that status, in
  every event context: \<^verbatim>\<open>success\<close> gives colour \<^verbatim>\<open>#2cbe4e\<close> and label \<^verbatim>\<open>Succeeded\<close>,
  \<^verbatim>\<open>failure\<close> gives \<^verbatim>\<open>#cb2431\<close> and \<^verbatim>\<open>Failed\<close>, \<^verbatim>\<open>cancelled\<close> gives \<^verbatim>\<open>#ffc107\<close> and
  \<^verbatim>\<open>Cancelled\<close>. For each of the three statuses a payload is returned: without any network
  call in compact mode, in release mode and in full mode without commit lookup, and
  after the lookup whenever the API answers with a commit. Every payload generated for
  the status has one attachment, which carries the colour of that status.
\<close>

theorem accessory_fixed_pairs:
  "Block_member c ''success'' = AccessoryV \<lparr>color = ''#2cbe4e'', result = ''Succeeded''\<rparr>
   \<and> Block_member c ''failure'' = AccessoryV \<lparr>color = ''#cb2431'', result = ''Failed''\<rparr>
   \<and> Block_member c ''cancelled'' = AccessoryV \<lparr>color = ''#ffc107'', result = ''Cancelled''\<rparr>
   \<and> (status \<in> {''success'', ''failure'', ''cancelled''}
        \<and> (isCompactMode \<or> isReleaseMode \<or> \<not> (commitFlag \<and> truthy_opt token)) \<longrightarrow>
        (\<exists>p. generatePayload w jobName status mention mentionCondition commitFlag
                isCompactMode isReleaseMode created_tag token = ([], Inr p)))
   \<and> (\<forall>t r commit.
        status \<in> {''success'', ''failure'', ''cancelled''}
        \<and> commitFlag \<and> token = Some t \<and> t \<noteq> [] \<and> commitRef w = Inr r
        \<and> getCommit w t (repo_owner (github_context w)) (repo_repo (github_context w)) r
            = Inr commit \<longrightarrow>
        (\<exists>p. snd (generatePayload w jobName status mention mentionCondition commitFlag
                     isCompactMode isReleaseMode created_tag token) = Inr p))
   \<and> (\<forall>p. snd (generatePayload w jobName status mention mentionCondition commitFlag
                 isCompactMode isReleaseMode created_tag token) = Inr p \<longrightarrow>
        (status = ''success'' \<longrightarrow>
           map attachment_color (attachments p) = [Some ''#2cbe4e''])
        \<and> (status = ''failure'' \<longrightarrow>
           map attachment_color (attachments p) = [Some ''#cb2431''])
        \<and> (status = ''cancelled'' \<longrightarrow>
           map attachment_color (attachments p) = [Some ''#ffc107'']))"
proof (intro conjI allI impI)
  show "Block_member c ''success''
          = AccessoryV \<lparr>color = ''#2cbe4e'', result = ''Succeeded''\<rparr>"
    by (simp add: Block_member_def success_def)
  show "Block_member c ''failure'' = AccessoryV \<lparr>color = ''#cb2431'', result = ''Failed''\<rparr>"
    by (simp add: Block_member_def failure_def)
  show "Block_member c ''cancelled''
          = AccessoryV \<lparr>color = ''#ffc107'', result = ''Cancelled''\<rparr>"
    by (simp add: Block_member_def cancelled_def)
next
  assume h: "status \<in> {''success'', ''failure'', ''cancelled''}
        \<and> (isCompactMode \<or> isReleaseMode \<or> \<not> (commitFlag \<and> truthy_opt token))"
  then obtain res where res: "member_result (Block_member (github_context w) status) = Inr res"
    using member_result_success member_result_failure member_result_cancelled by auto
  show "\<exists>p. generatePayload w jobName status mention mentionCondition commitFlag
               isCompactMode isReleaseMode created_tag token = ([], Inr p)"
  proof (cases isCompactMode)
    case True
    then show ?thesis by (simp add: generatePayload_compact [OF res])
  next
    case False
    note compact_off = this
    show ?thesis
    proof (cases isReleaseMode)
      case True
      with compact_off show ?thesis by (simp add: generatePayload_release [OF res])
    next
      case False
      with compact_off h have "guard_token commitFlag token = None"
        by (simp add: guard_token_None)
      with compact_off False show ?thesis
        by (simp add: generatePayload_full_plain [OF res])
    qed
  qed
next
  fix t r commit
  let ?c = "github_context w"
  assume h: "status \<in> {''success'', ''failure'', ''cancelled''}
        \<and> commitFlag \<and> token = Some t \<and> t \<noteq> [] \<and> commitRef w = Inr r
        \<and> getCommit w t (repo_owner ?c) (repo_repo ?c) r = Inr commit"
  then obtain res where res: "member_result (Block_member ?c status) = Inr res"
    using member_result_success member_result_failure member_result_cancelled by auto
  from h have g: "guard_token commitFlag token = Some t"
    by (simp add: guard_token_Some)
  from h have fields: "getCommitFields w t
      = ([GetCommit t (repo_owner ?c) (repo_repo ?c) r], Inr (commitFieldsOf commit))"
    by (simp add: getCommitFields_def Let_def)
  show "\<exists>p. snd (generatePayload w jobName status mention mentionCondition commitFlag
                    isCompactMode isReleaseMode created_tag token) = Inr p"
  proof (cases isCompactMode)
    case True
    then show ?thesis by (simp add: generatePayload_compact [OF res])
  next
    case False
    note compact_off = this
    show ?thesis
    proof (cases isReleaseMode)
      case True
      with compact_off show ?thesis by (simp add: generatePayload_release [OF res])
    next
      case False
      with compact_off show ?thesis
        by (simp add: generatePayload_full_commit [OF res g] fields)
    qed
  qed
next
  fix p
  assume run: "snd (generatePayload w jobName status mention mentionCondition commitFlag
                      isCompactMode isReleaseMode created_tag token) = Inr p"
  from generatePayload_shape [OF run] obtain res blk
    where hp: "p = wrap_payload (summary_text jobName status mention mentionCondition res)
                   (member_color (Block_member (github_context w) status)) blk"
    by blast
  have col: "map attachment_color (attachments p)
               = [member_color (Block_member (github_context w) status)]"
    by (simp add: hp wrap_payload_def)
  show "status = ''success'' \<Longrightarrow> map attachment_color (attachments p) = [Some ''#2cbe4e'']"
    unfolding col by (simp add: Block_member_def member_color_def success_def)
  show "status = ''failure'' \<Longrightarrow> map attachment_color (attachments p) = [Some ''#cb2431'']"
    unfolding col by (simp add: Block_member_def member_color_def failure_def)
  show "status = ''cancelled'' \<Longrightarrow> map attachment_color (attachments p) = [Some ''#ffc107'']"
    unfolding col by (simp add: Block_member_def member_color_def cancelled_def)
qed

text \<open>
  The three pairs on a push, and one run for each status: \<^verbatim>\<open>success\<close> in full mode,
  \<^verbatim>\<open>failure\<close> in release mode, \<^verbatim>\<open>cancelled\<close> in compact mode on a pull request, and
  \<^verbatim>\<open>success\<close> in full mode with the commit lookup.
\<close>

theorem accessory_fixed_pairs_witness:
  "Block_member push_context ''success''
     = AccessoryV \<lparr>color = ''#2cbe4e'', result = ''Succeeded''\<rparr>
   \<and> Block_member push_context ''failure''
     = AccessoryV \<lparr>color = ''#cb2431'', result = ''Failed''\<rparr>
   \<and> Block_member push_context ''cancelled''
     = AccessoryV \<lparr>color = ''#ffc107'', result = ''Cancelled''\<rparr>
   \<and> (\<exists>p. generatePayload push_world ''build'' ''success'' [] [] False False False [] None
             = ([], Inr p)
          \<and> map attachment_color (attachments p) = [Some ''#2cbe4e''])
   \<and> (\<exists>p. generatePayload push_world ''build'' ''failure'' [] [] False False True ''v1'' None
             = ([], Inr p)
          \<and> map attachment_color (attachments p) = [Some ''#cb2431''])
   \<and> (\<exists>p. generatePayload (pr_world ''feature'') ''build'' ''cancelled'' [] [] False True
             False [] None = ([], Inr p)
          \<and> map attachment_color (attachments p) = [Some ''#ffc107''])
   \<and> (\<exists>p. snd (generatePayload push_world ''build'' ''success'' [] [] True False False []
                  (Some ''t0ken'')) = Inr p
          \<and> map attachment_color (attachments p) = [Some ''#2cbe4e''])"
proof -
  note pairs = accessory_fixed_pairs [where c = push_context]
  have one: "\<exists>p. generatePayload push_world ''build'' ''success'' [] [] False False False []
                    None = ([], Inr p)
               \<and> map attachment_color (attachments p) = [Some ''#2cbe4e'']"
  proof -
    note th = accessory_fixed_pairs [where w = push_world and jobName = "''build''"
        and status = "''success''" and mention = "[]" and mentionCondition = "[]"
        and commitFlag = False and isCompactMode = False and isReleaseMode = False
        and created_tag = "[]" and token = None]
    have hyp: "''success'' \<in> {''success'', ''failure'', ''cancelled''}
                 \<and> (False \<or> False \<or> \<not> (False \<and> truthy_opt None))"
      by simp
    from th [THEN conjunct2, THEN conjunct2, THEN conjunct2, THEN conjunct1, rule_format,
             OF hyp]
    obtain p where run: "generatePayload push_world ''build'' ''success'' [] [] False False
                           False [] None = ([], Inr p)"
      by (elim exE)
    then have "snd (generatePayload push_world ''build'' ''success'' [] [] False False False
                      [] None) = Inr p"
      by simp
    from th [THEN conjunct2, THEN conjunct2, THEN conjunct2, THEN conjunct2, THEN conjunct2,
             rule_format, OF this]
    have "map attachment_color (attachments p) = [Some ''#2cbe4e'']"
      by simp
    with run show ?thesis
      by (intro exI [of _ p] conjI)
  qed
  have two: "\<exists>p. generatePayload push_world ''build'' ''failure'' [] [] False False True
                    ''v1'' None = ([], Inr p)
               \<and> map attachment_color (attachments p) = [Some ''#cb2431'']"
  proof -
    note th = accessory_fixed_pairs [where w = push_world and jobName = "''build''"
        and status = "''failure''" and mention = "[]" and mentionCondition = "[]"
        and commitFlag = False and isCompactMode = False and isReleaseMode = True
        and created_tag = "''v1''" and token = None]
    have hyp: "''failure'' \<in> {''success'', ''failure'', ''cancelled''}
                 \<and> (False \<or> True \<or> \<not> (False \<and> truthy_opt None))"
      by simp
    from th [THEN conjunct2, THEN conjunct2, THEN conjunct2, THEN conjunct1, rule_format,
             OF hyp]
    obtain p where run: "generatePayload push_world ''build'' ''failure'' [] [] False False
                           True ''v1'' None = ([], Inr p)"
      by (elim exE)
    then have "snd (generatePayload push_world ''build'' ''failure'' [] [] False False True
                      ''v1'' None) = Inr p"
      by simp
    from th [THEN conjunct2, THEN conjunct2, THEN conjunct2, THEN conjunct2, THEN conjunct2,
             rule_format, OF this]
    have "map attachment_color (attachments p) = [Some ''#cb2431'']"
      by simp
    with run show ?thesis
      by (intro exI [of _ p] conjI)
  qed
  have three: "\<exists>p. generatePayload (pr_world ''feature'') ''build'' ''cancelled'' [] [] False
                      True False [] None = ([], Inr p)
               \<and> map attachment_color (attachments p) = [Some ''#ffc107'']"
  proof -
    note th = accessory_fixed_pairs [where w = "pr_world ''feature''"
        and jobName = "''build''" and status = "''cancelled''" and mention = "[]"
        and mentionCondition = "[]" and commitFlag = False and isCompactMode = True
        and isReleaseMode = False and created_tag = "[]" and token = None]
    have hyp: "''cancelled'' \<in> {''success'', ''failure'', ''cancelled''}
                 \<and> (True \<or> False \<or> \<not> (False \<and> truthy_opt None))"
      by simp
    from th [THEN conjunct2, THEN conjunct2, THEN conjunct2, THEN conjunct1, rule_format,
             OF hyp]
    obtain p where run: "generatePayload (pr_world ''feature'') ''build'' ''cancelled'' [] []
                           False True False [] None = ([], Inr p)"
      by (elim exE)
    then have "snd (generatePayload (pr_world ''feature'') ''build'' ''cancelled'' [] []
                      False True False [] None) = Inr p"
      by simp
    from th [THEN conjunct2, THEN conjunct2, THEN conjunct2, THEN conjunct2, THEN conjunct2,
             rule_format, OF this]
    have "map attachment_color (attachments p) = [Some ''#ffc107'']"
      by simp
    with run show ?thesis
      by (intro exI [of _ p] conjI)
  qed
  have four: "\<exists>p. snd (generatePayload push_world ''build'' ''success'' [] [] True False
                          False [] (Some ''t0ken'')) = Inr p
               \<and> map attachment_color (attachments p) = [Some ''#2cbe4e'']"
  proof -
    note th = accessory_fixed_pairs [where w = push_world and jobName = "''build''"
        and status = "''success''" and mention = "[]" and mentionCondition = "[]"
        and commitFlag = True and isCompactMode = False and isReleaseMode = False
        and created_tag = "[]" and token = "Some ''t0ken''"]
    have hyp: "''success'' \<in> {''success'', ''failure'', ''cancelled''}
        \<and> True \<and> Some ''t0ken'' = Some ''t0ken'' \<and> ''t0ken'' \<noteq> []
        \<and> commitRef push_world = Inr ''a1b2c3d''
        \<and> getCommit push_world ''t0ken'' (repo_owner (github_context push_world))
             (repo_repo (github_context push_world)) ''a1b2c3d'' = Inr signed_commit"
      by (simp add: commitRef_def isPullRequest_def sample_defs)
    from th [THEN conjunct2, THEN conjunct2, THEN conjunct2, THEN conjunct2, THEN conjunct1,
             rule_format, OF hyp]
    obtain p where run: "snd (generatePayload push_world ''build'' ''success'' [] [] True
                                False False [] (Some ''t0ken'')) = Inr p"
      by (elim exE)
    from th [THEN conjunct2, THEN conjunct2, THEN conjunct2, THEN conjunct2, THEN conjunct2,
             rule_format, OF this]
    have "map attachment_color (attachments p) = [Some ''#2cbe4e'']"
      by simp
    with run show ?thesis
      by (intro exI [of _ p] conjI)
  qed
  from pairs [THEN conjunct1] pairs [THEN conjunct2, THEN conjunct1]
    pairs [THEN conjunct2, THEN conjunct2, THEN conjunct1] one two three four
  show ?thesis
    by (intro conjI)
qed

section \<open>A status that is not one of the three\<close>

text \<open>
  Claim C3 as stated, that every status other than the three fails before any network
  call, does not hold. The status \<^verbatim>\<open>isPullRequest\<close> is none of \<^verbatim>\<open>success\<close>, \<^verbatim>\<open>failure\<close>, \<^verbatim>\<open>cancelled\<close>, yet it
  names a getter of the class: nothing is thrown, the label is rendered as \<^verbatim>\<open>undefined\<close>,
  the attachment has no colour, and with the commit flag and a token the commit lookup
  is made.
\<close>

theorem unknown_status_counterexample:
  "''isPullRequest'' \<notin> {''success'', ''failure'', ''cancelled''}
   \<and> generatePayload push_world ''build'' ''isPullRequest'' [] [] True False False []
         (Some ''t0ken'')
       = ([GetCommit ''t0ken'' ''weseek'' ''slatify'' ''a1b2c3d''],
          Inr (wrap_payload ''build undefined'' None
                 (section_fields (baseFields push_context @ commitFieldsOf signed_commit))))"
  by (simp add: run_defs sample_defs)

text \<open>
  Claim C3, amended. For every status string that names no property of the \<^verbatim>\<open>Block\<close>
  object (neither its own, nor of its class, nor inherited from \<^verbatim>\<open>Object.prototype\<close>),
  \<^const>\<open>generatePayload\<close> throws a \<^verbatim>\<open>TypeError\<close> before any network call, whatever the other
  arguments are.
\<close>

theorem unknown_property_fails_fast:
  assumes "status \<notin> set Block_property_names"
  shows "generatePayload w jobName status mention mentionCondition commitFlag isCompactMode
           isReleaseMode created_tag token = ([], Inl TypeError)"
proof -
  from assms have "Block_member (github_context w) status = UndefinedV"
    by (simp add: Block_property_names_def Block_member_def)
  then have "member_result (Block_member (github_context w) status) = Inl TypeError"
    by (simp add: member_result_def)
  then show ?thesis
    by (rule generatePayload_undefined)
qed

theorem unknown_property_fails_fast_witness:
  "''bogus'' \<notin> set Block_property_names
   \<and> generatePayload push_world ''build'' ''bogus'' ''channel'' ''always'' True False False []
         (Some ''t0ken'') = ([], Inl TypeError)"
proof -
  have h: "''bogus'' \<notin> set Block_property_names"
    by (simp add: Block_property_names_def Block_methods_def Object_prototype_functions_def)
  from h unknown_property_fails_fast [OF h] show ?thesis by simp
qed

section \<open>Full mode\<close>

text \<open>
  A payload generated in full mode carries either the four context fields alone (the
  guard \<^verbatim>\<open>commitFlag && token\<close> is off) or the four context fields followed by the fields of
  the commit that the API answered with.
\<close>

lemma generatePayload_full_shape:
  assumes "snd (generatePayload w jobName status mention mentionCondition commitFlag False
                  False created_tag token) = Inr p"
  shows "\<exists>res. member_result (Block_member (github_context w) status) = Inr res
           \<and> ((guard_token commitFlag token = None
                 \<and> p = wrap_payload (summary_text jobName status mention mentionCondition res)
                         (member_color (Block_member (github_context w) status))
                         (section_fields (baseFields (github_context w))))
              \<or> (\<exists>t r commit.
                    guard_token commitFlag token = Some t
                    \<and> commitRef w = Inr r
                    \<and> getCommit w t (repo_owner (github_context w))
                          (repo_repo (github_context w)) r = Inr commit
                    \<and> p = wrap_payload
                            (summary_text jobName status mention mentionCondition res)
                            (member_color (Block_member (github_context w) status))
                            (section_fields
                               (baseFields (github_context w) @ commitFieldsOf commit))))"
  using assms
  by (auto simp: generatePayload_def getCommitFields_def Let_def
           split: sum.splits option.splits prod.splits)

lemma blocks_wrap_payload:
  "map blocks (attachments (wrap_payload t c b)) = [[b]]"
  by (simp add: wrap_payload_def)

text \<open>
  Claim C4. Every payload generated with compact mode and release mode both off has one
  section block whose field sequence starts with the four context fields, in the order
  repository, ref, event name, workflow; what follows them is nothing, a commit field,
  or a commit field and an author field, so no commit or author field stands among
  the first four.
\<close>

theorem full_mode_context_fields_first:
  assumes "snd (generatePayload w jobName status mention mentionCondition commitFlag False
                  False created_tag token) = Inr p"
  shows "\<exists>fs extra.
           map blocks (attachments p)
             = [[\<lparr>block_type = ''section'', block_text = None, block_fields = Some fs\<rparr>]]
           \<and> fs = [repositoryField (github_context w), refField (github_context w),
                   eventField (github_context w), workflowField (github_context w)] @ extra
           \<and> (extra = [] \<or> (\<exists>commit. extra = [commitField commit])
                \<or> (\<exists>commit a. extra = [commitField commit, authorField a]))
           \<and> prefix (''*repository*'' @ [LF]) (el_text (fs ! 0))
           \<and> prefix (''*ref*'' @ [LF]) (el_text (fs ! 1))
           \<and> prefix (''*event name*'' @ [LF]) (el_text (fs ! 2))
           \<and> prefix (''*workflow*'' @ [LF]) (el_text (fs ! 3))"
proof -
  let ?c = "github_context w"
  have names:
    "prefix (''*repository*'' @ [LF]) (el_text ((baseFields ?c @ extra) ! 0))
     \<and> prefix (''*ref*'' @ [LF]) (el_text ((baseFields ?c @ extra) ! 1))
     \<and> prefix (''*event name*'' @ [LF]) (el_text ((baseFields ?c @ extra) ! 2))
     \<and> prefix (''*workflow*'' @ [LF]) (el_text ((baseFields ?c @ extra) ! 3))" for extra
    by (simp add: baseFields_def repositoryField_def refField_def eventField_def
                  workflowField_def mrkdwn_def nth_Cons' )
  from generatePayload_full_shape [OF assms] obtain tx col extra
    where hp: "p = wrap_payload tx col (section_fields (baseFields ?c @ extra))"
      and hex: "extra = [] \<or> (\<exists>commit. extra = commitFieldsOf commit)"
    by (metis append_Nil2)
  from hex have shape: "extra = [] \<or> (\<exists>commit. extra = [commitField commit])
                          \<or> (\<exists>commit a. extra = [commitField commit, authorField a])"
    by (auto simp: commitFieldsOf_def split: option.splits)
  have "map blocks (attachments p)
          = [[\<lparr>block_type = ''section'', block_text = None,
               block_fields = Some (baseFields ?c @ extra)\<rparr>]]"
    by (simp add: hp blocks_wrap_payload section_fields_def)
  moreover have "baseFields ?c @ extra
          = [repositoryField ?c, refField ?c, eventField ?c, workflowField ?c] @ extra"
    by (simp add: baseFields_def)
  ultimately show ?thesis
    using shape names [of extra] by metis
qed

text \<open>A successful push with the commit flag and a token: six fields, the four first.\<close>

theorem full_mode_context_fields_first_witness:
  "snd (generatePayload push_world ''build'' ''success'' [] [] True False False []
          (Some ''t0ken''))
     = Inr (wrap_payload ''build Succeeded'' (Some ''#2cbe4e'')
              (section_fields (baseFields push_context @ commitFieldsOf signed_commit)))
   \<and> (\<exists>fs extra.
         map blocks (attachments
            (wrap_payload ''build Succeeded'' (Some ''#2cbe4e'')
               (section_fields (baseFields push_context @ commitFieldsOf signed_commit))))
           = [[\<lparr>block_type = ''section'', block_text = None, block_fields = Some fs\<rparr>]]
         \<and> fs = [repositoryField (github_context push_world),
                 refField (github_context push_world),
                 eventField (github_context push_world),
                 workflowField (github_context push_world)] @ extra
         \<and> (extra = [] \<or> (\<exists>commit. extra = [commitField commit])
                \<or> (\<exists>commit a. extra = [commitField commit, authorField a]))
         \<and> prefix (''*repository*'' @ [LF]) (el_text (fs ! 0))
         \<and> prefix (''*ref*'' @ [LF]) (el_text (fs ! 1))
         \<and> prefix (''*event name*'' @ [LF]) (el_text (fs ! 2))
         \<and> prefix (''*workflow*'' @ [LF]) (el_text (fs ! 3)))"
proof -
  have run: "snd (generatePayload push_world ''build'' ''success'' [] [] True False False []
                    (Some ''t0ken''))
               = Inr (wrap_payload ''build Succeeded'' (Some ''#2cbe4e'')
                   (section_fields (baseFields push_context @ commitFieldsOf signed_commit)))"
    by (simp add: run_defs sample_defs)
  from run full_mode_context_fields_first [OF run] show ?thesis
    by (rule conjI)
qed

subsection \<open>Commit enrichment\<close>







section \<open>Delivery\<close>

text \<open>
  Claim C6. When the webhook client answers with an acknowledgement text, \<^const>\<open>notify\<close>
  succeeds if and only if that text is exactly \<^verbatim>\<open>ok\<close>; for any other text, the empty one
  included, it throws an \<^verbatim>\<open>Error\<close> whose message contains the text. One delivery is made
  either way.
\<close>

theorem notify_ok_iff:
  assumes "send url options payload = Inr ack"
  shows "fst (notify send url options payload) = [WebhookSend url payload]
       \<and> (snd (notify send url options payload) = Inr () \<longleftrightarrow> ack = ''ok'')
       \<and> (ack \<noteq> ''ok'' \<longrightarrow>
            (\<exists>msg. snd (notify send url options payload) = Inl (Error msg)
               \<and> sublist ack msg))"
proof -
  have "sublist ack (failure_message ack)"
    unfolding failure_message_def sublist_def by (metis append.assoc)
  with assms show ?thesis
    by (simp add: notify_def)
qed

text \<open>The answers \<^verbatim>\<open>error: invalid_payload\<close>, the empty text and \<^verbatim>\<open>ok\<close>.\<close>

theorem notify_ok_iff_witness:
  "acknowledge ''error: invalid_payload'' ''https://hooks.example/T0'' () 
      (wrap_payload ''build Failed'' (Some ''#cb2431'') (section_fields []))
     = Inr ''error: invalid_payload''
   \<and> snd (notify (acknowledge ''error: invalid_payload'') ''https://hooks.example/T0'' ()
           (wrap_payload ''build Failed'' (Some ''#cb2431'') (section_fields []))) \<noteq> Inr ()
   \<and> (\<exists>msg. snd (notify (acknowledge ''error: invalid_payload'') ''https://hooks.example/T0'' ()
                   (wrap_payload ''build Failed'' (Some ''#cb2431'') (section_fields [])))
               = Inl (Error msg)
            \<and> sublist ''error: invalid_payload'' msg)
   \<and> acknowledge [] ''https://hooks.example/T0'' () 
        (wrap_payload ''build Failed'' (Some ''#cb2431'') (section_fields [])) = Inr []
   \<and> snd (notify (acknowledge []) ''https://hooks.example/T0'' ()
           (wrap_payload ''build Failed'' (Some ''#cb2431'') (section_fields []))) \<noteq> Inr ()
   \<and> acknowledge ''ok'' ''https://hooks.example/T0'' () 
        (wrap_payload ''build Failed'' (Some ''#cb2431'') (section_fields [])) = Inr ''ok''
   \<and> snd (notify (acknowledge ''ok'') ''https://hooks.example/T0'' ()
           (wrap_payload ''build Failed'' (Some ''#cb2431'') (section_fields []))) = Inr ()"
proof -
  let ?u = "''https://hooks.example/T0''"
  let ?p = "wrap_payload ''build Failed'' (Some ''#cb2431'') (section_fields [])"
  have e: "acknowledge ''error: invalid_payload'' ?u () ?p = Inr ''error: invalid_payload''"
    and n: "acknowledge [] ?u () ?p = Inr []"
    and k: "acknowledge ''ok'' ?u () ?p = Inr ''ok''"
    by (simp_all add: acknowledge_def)
  note th = notify_ok_iff [where url = ?u and options = "()" and payload = ?p]
  from th [where send = "acknowledge ''error: invalid_payload''", OF e]
    th [where send = "acknowledge []", OF n] th [where send = "acknowledge ''ok''", OF k] e n k
  show ?thesis by simp
qed

section \<open>Compact mode and release mode\<close>

lemma three_statuses_resolve:
  assumes "status \<in> {''success'', ''failure'', ''cancelled''}"
  shows "\<exists>res. member_result (Block_member c status) = Inr res"
  using assms member_result_success member_result_failure member_result_cancelled by auto

lemma compact_text_unfolded:
  "getCompactModeTextField c label =
     \<lparr>el_type = ''mrkdwn'',
      el_text = ''[<https://github.com/'' @ repo_owner c @ ''/'' @ repo_repo c @ ''|''
        @ repo_owner c @ ''/'' @ repo_repo c @ ''>] '' @ template_text label @ '' by ''
        @ actor c @ '' on '' @ ref c @ '', check <https://github.com/'' @ repo_owner c
        @ ''/'' @ repo_repo c @ ''/commit/'' @ sha c @ ''/checks|'' @ workflow c @ ''>''\<rparr>"
  by (simp add: getCompactModeTextField_def mrkdwn_def repoUrl_def)

text \<open>
  Claim C7. With compact mode on, every generated payload has one section block that
  carries a single text and no fields, and the text is
  \<^verbatim>\<open>[<repository link>] label by actor on ref, check <workflow link>\<close>, built from the event
  context and the label of the status; for \<^verbatim>\<open>cancelled\<close> the label is \<^verbatim>\<open>Cancelled\<close> and the
  attachment colour is \<^verbatim>\<open>#ffc107\<close>. For each of the three statuses the payload is
  returned, without any network call.
\<close>

theorem compact_mode_single_text:
  "(status \<in> {''success'', ''failure'', ''cancelled''} \<longrightarrow>
      (\<exists>p. generatePayload w jobName status mention mentionCondition commitFlag True
              isReleaseMode created_tag token = ([], Inr p)))
   \<and> (\<forall>p. snd (generatePayload w jobName status mention mentionCondition commitFlag True
                 isReleaseMode created_tag token) = Inr p \<longrightarrow>
        (\<exists>label.
           member_result (Block_member (github_context w) status) = Inr label
           \<and> map blocks (attachments p)
               = [[\<lparr>block_type = ''section'',
                    block_text = Some
                      \<lparr>el_type = ''mrkdwn'',
                       el_text = ''[<https://github.com/'' @ repo_owner (github_context w)
                         @ ''/'' @ repo_repo (github_context w) @ ''|''
                         @ repo_owner (github_context w) @ ''/''
                         @ repo_repo (github_context w) @ ''>] '' @ template_text label
                         @ '' by '' @ actor (github_context w) @ '' on ''
                         @ ref (github_context w) @ '', check <https://github.com/''
                         @ repo_owner (github_context w) @ ''/''
                         @ repo_repo (github_context w) @ ''/commit/''
                         @ sha (github_context w) @ ''/checks|''
                         @ workflow (github_context w) @ ''>''\<rparr>,
                    block_fields = None\<rparr>]]
           \<and> (status = ''success'' \<longrightarrow> label = Some ''Succeeded'')
           \<and> (status = ''failure'' \<longrightarrow> label = Some ''Failed'')
           \<and> (status = ''cancelled'' \<longrightarrow>
                label = Some ''Cancelled''
                \<and> map attachment_color (attachments p) = [Some ''#ffc107''])))"
proof (intro conjI allI impI)
  assume "status \<in> {''success'', ''failure'', ''cancelled''}"
  then obtain res where "member_result (Block_member (github_context w) status) = Inr res"
    using three_statuses_resolve by blast
  then show "\<exists>p. generatePayload w jobName status mention mentionCondition commitFlag True
                   isReleaseMode created_tag token = ([], Inr p)"
    by (simp add: generatePayload_compact)
next
  fix p
  let ?c = "github_context w"
  assume run: "snd (generatePayload w jobName status mention mentionCondition commitFlag True
                      isReleaseMode created_tag token) = Inr p"
  from generatePayload_shape [OF run] obtain res
    where hres: "member_result (Block_member ?c status) = Inr res"
    by blast
  from run have hp: "p = wrap_payload (summary_text jobName status mention mentionCondition res)
                         (member_color (Block_member ?c status))
                         (section_text (getCompactModeTextField ?c res))"
    by (simp add: generatePayload_compact [OF hres])
  have b: "map blocks (attachments p) = [[section_text (getCompactModeTextField ?c res)]]"
    by (simp add: hp wrap_payload_def)
  have col: "map attachment_color (attachments p) = [member_color (Block_member ?c status)]"
    by (simp add: hp wrap_payload_def)
  have l1: "status = ''success'' \<longrightarrow> res = Some ''Succeeded''"
    using hres member_result_success [of ?c] by auto
  have l2: "status = ''failure'' \<longrightarrow> res = Some ''Failed''"
    using hres member_result_failure [of ?c] by auto
  have l3: "status = ''cancelled'' \<longrightarrow> res = Some ''Cancelled''
              \<and> map attachment_color (attachments p) = [Some ''#ffc107'']"
    using hres member_result_cancelled [of ?c]
    by (auto simp: col member_color_def Block_member_def cancelled_def)
  show "\<exists>label.
           member_result (Block_member ?c status) = Inr label
           \<and> map blocks (attachments p)
               = [[\<lparr>block_type = ''section'',
                    block_text = Some
                      \<lparr>el_type = ''mrkdwn'',
                       el_text = ''[<https://github.com/'' @ repo_owner ?c
                         @ ''/'' @ repo_repo ?c @ ''|''
                         @ repo_owner ?c @ ''/''
                         @ repo_repo ?c @ ''>] '' @ template_text label
                         @ '' by '' @ actor ?c @ '' on ''
                         @ ref ?c @ '', check <https://github.com/''
                         @ repo_owner ?c @ ''/''
                         @ repo_repo ?c @ ''/commit/''
                         @ sha ?c @ ''/checks|''
                         @ workflow ?c @ ''>''\<rparr>,
                    block_fields = None\<rparr>]]
           \<and> (status = ''success'' \<longrightarrow> label = Some ''Succeeded'')
           \<and> (status = ''failure'' \<longrightarrow> label = Some ''Failed'')
           \<and> (status = ''cancelled'' \<longrightarrow>
                label = Some ''Cancelled''
                \<and> map attachment_color (attachments p) = [Some ''#ffc107''])"
  proof (intro exI [of _ res] conjI)
    show "member_result (Block_member ?c status) = Inr res" by (rule hres)
    show "map blocks (attachments p)
               = [[\<lparr>block_type = ''section'',
                    block_text = Some
                      \<lparr>el_type = ''mrkdwn'',
                       el_text = ''[<https://github.com/'' @ repo_owner ?c
                         @ ''/'' @ repo_repo ?c @ ''|''
                         @ repo_owner ?c @ ''/''
                         @ repo_repo ?c @ ''>] '' @ template_text res
                         @ '' by '' @ actor ?c @ '' on ''
                         @ ref ?c @ '', check <https://github.com/''
                         @ repo_owner ?c @ ''/''
                         @ repo_repo ?c @ ''/commit/''
                         @ sha ?c @ ''/checks|''
                         @ workflow ?c @ ''>''\<rparr>,
                    block_fields = None\<rparr>]]"
      unfolding b section_text_def compact_text_unfolded by (rule refl)
  qed (use l1 l2 l3 in blast)+
qed

text \<open>A cancelled job in compact mode.\<close>

theorem compact_mode_single_text_witness:
  "generatePayload (pr_world ''feature'') ''build'' ''cancelled'' [] [] False True False []
       None
     = ([], Inr (wrap_payload ''build Cancelled'' (Some ''#ffc107'')
                   (section_text (getCompactModeTextField pr_context (Some ''Cancelled'')))))
   \<and> map blocks (attachments (wrap_payload ''build Cancelled'' (Some ''#ffc107'')
          (section_text (getCompactModeTextField pr_context (Some ''Cancelled'')))))
       = [[\<lparr>block_type = ''section'',
            block_text = Some
              \<lparr>el_type = ''mrkdwn'',
               el_text = ''[<https://github.com/weseek/slatify|weseek/slatify>] Cancelled by octocat''
                 @ '' on refs/pull/7/merge, check ''
                 @ ''<https://github.com/weseek/slatify/commit/e4f5a6b/checks|CI>''\<rparr>,
            block_fields = None\<rparr>]]
   \<and> map attachment_color (attachments (wrap_payload ''build Cancelled'' (Some ''#ffc107'')
          (section_text (getCompactModeTextField pr_context (Some ''Cancelled'')))))
       = [Some ''#ffc107'']"
proof -
  let ?p = "wrap_payload ''build Cancelled'' (Some ''#ffc107'')
              (section_text (getCompactModeTextField pr_context (Some ''Cancelled'')))"
  note th = compact_mode_single_text [where w = "pr_world ''feature''"
      and jobName = "''build''" and status = "''cancelled''" and mention = "[]"
      and mentionCondition = "[]" and commitFlag = False and isReleaseMode = False
      and created_tag = "[]" and token = None]
  have valid: "''cancelled'' \<in> {''success'', ''failure'', ''cancelled''}"
    by simp
  from th [THEN conjunct1, rule_format, OF valid] obtain p
    where total: "generatePayload (pr_world ''feature'') ''build'' ''cancelled'' [] [] False
                    True False [] None = ([], Inr p)"
    by blast
  have run: "generatePayload (pr_world ''feature'') ''build'' ''cancelled'' [] [] False True
               False [] None = ([], Inr ?p)"
    by (simp add: run_defs sample_defs)
  then have "snd (generatePayload (pr_world ''feature'') ''build'' ''cancelled'' [] [] False
                    True False [] None) = Inr ?p"
    by simp
  from th [THEN conjunct2, rule_format, OF this]
  have "map blocks (attachments ?p)
       = [[\<lparr>block_type = ''section'',
            block_text = Some
              \<lparr>el_type = ''mrkdwn'',
               el_text = ''[<https://github.com/weseek/slatify|weseek/slatify>] Cancelled by octocat''
                 @ '' on refs/pull/7/merge, check ''
                 @ ''<https://github.com/weseek/slatify/commit/e4f5a6b/checks|CI>''\<rparr>,
            block_fields = None\<rparr>]]
      \<and> map attachment_color (attachments ?p) = [Some ''#ffc107'']"
    by (auto simp: sample_defs template_text_def)
  with run total show ?thesis by simp
qed

text \<open>
  Claim C8. With release mode on and compact mode off, every generated payload has one
  section block that carries a single text and no fields, and the text is the fixed
  prefix \<^verbatim>\<open>https://github.com/weseek/growi/releases/tag/\<close> followed by the created tag;
  any two payloads generated for the same tag, whatever the event context and the other
  arguments, have the same body. For each of the three statuses the payload is returned,
  without any network call.
\<close>

theorem release_mode_single_text:
  "(status \<in> {''success'', ''failure'', ''cancelled''} \<longrightarrow>
      (\<exists>p. generatePayload w jobName status mention mentionCondition commitFlag False
              True created_tag token = ([], Inr p)))
   \<and> (\<forall>p. snd (generatePayload w jobName status mention mentionCondition commitFlag False
                 True created_tag token) = Inr p \<longrightarrow>
        map blocks (attachments p)
          = [[\<lparr>block_type = ''section'',
               block_text = Some
                 \<lparr>el_type = ''mrkdwn'',
                  el_text = ''https://github.com/weseek/growi/releases/tag/'' @ created_tag\<rparr>,
               block_fields = None\<rparr>]]
        \<and> (\<forall>w' jobName' status' mention' mentionCondition' commitFlag' token' p'.
              snd (generatePayload w' jobName' status' mention' mentionCondition' commitFlag'
                     False True created_tag token') = Inr p' \<longrightarrow>
              map blocks (attachments p') = map blocks (attachments p)))"
proof -
  have body: "map blocks (attachments p)
          = [[\<lparr>block_type = ''section'',
               block_text = Some
                 \<lparr>el_type = ''mrkdwn'',
                  el_text = ''https://github.com/weseek/growi/releases/tag/'' @ tag\<rparr>,
               block_fields = None\<rparr>]]"
    if run: "snd (generatePayload v j s m mc cf False True tag tok) = Inr p"
    for v j s m mc cf tag tok p
  proof -
    from generatePayload_shape [OF run] obtain res
      where hres: "member_result (Block_member (github_context v) s) = Inr res"
      by blast
    from run have "p = wrap_payload (summary_text j s m mc res)
                         (member_color (Block_member (github_context v) s))
                         (section_text (getReleaseModeTextField tag))"
      by (simp add: generatePayload_release [OF hres])
    then show ?thesis
      by (simp add: wrap_payload_def section_text_def getReleaseModeTextField_def mrkdwn_def)
  qed
  show ?thesis
  proof (intro conjI allI impI)
    assume "status \<in> {''success'', ''failure'', ''cancelled''}"
    then obtain res where "member_result (Block_member (github_context w) status) = Inr res"
      using three_statuses_resolve by blast
    then show "\<exists>p. generatePayload w jobName status mention mentionCondition commitFlag False
                     True created_tag token = ([], Inr p)"
      by (simp add: generatePayload_release)
  next
    fix p
    assume "snd (generatePayload w jobName status mention mentionCondition commitFlag False
                   True created_tag token) = Inr p"
    then show "map blocks (attachments p)
          = [[\<lparr>block_type = ''section'',
               block_text = Some
                 \<lparr>el_type = ''mrkdwn'',
                  el_text = ''https://github.com/weseek/growi/releases/tag/'' @ created_tag\<rparr>,
               block_fields = None\<rparr>]]"
      by (rule body)
  next
    fix p w' jobName' status' mention' mentionCondition' commitFlag' token' p'
    assume "snd (generatePayload w jobName status mention mentionCondition commitFlag False
                   True created_tag token) = Inr p"
      and "snd (generatePayload w' jobName' status' mention' mentionCondition' commitFlag'
                  False True created_tag token') = Inr p'"
    then show "map blocks (attachments p') = map blocks (attachments p)"
      by (simp add: body)
  qed
qed

text \<open>The tag \<^verbatim>\<open>v1.2.3\<close>, on a push and on a pull request.\<close>

theorem release_mode_single_text_witness:
  "generatePayload push_world ''release'' ''success'' [] [] False False True ''v1.2.3'' None
     = ([], Inr (wrap_payload ''release Succeeded'' (Some ''#2cbe4e'')
                   (section_text (getReleaseModeTextField ''v1.2.3''))))
   \<and> snd (generatePayload (pr_world ''feature'') ''publish'' ''failure'' ''here'' ''always''
            True False True ''v1.2.3'' (Some ''t0ken''))
     = Inr (wrap_payload ''<!here> publish Failed'' (Some ''#cb2431'')
              (section_text (getReleaseModeTextField ''v1.2.3'')))
   \<and> map blocks (attachments (wrap_payload ''release Succeeded'' (Some ''#2cbe4e'')
          (section_text (getReleaseModeTextField ''v1.2.3''))))
       = [[\<lparr>block_type = ''section'',
            block_text = Some
              \<lparr>el_type = ''mrkdwn'',
               el_text = ''https://github.com/weseek/growi/releases/tag/v1.2.3''\<rparr>,
            block_fields = None\<rparr>]]
   \<and> map blocks (attachments (wrap_payload ''<!here> publish Failed'' (Some ''#cb2431'')
          (section_text (getReleaseModeTextField ''v1.2.3''))))
       = map blocks (attachments (wrap_payload ''release Succeeded'' (Some ''#2cbe4e'')
          (section_text (getReleaseModeTextField ''v1.2.3''))))"
proof -
  let ?p = "wrap_payload ''release Succeeded'' (Some ''#2cbe4e'')
              (section_text (getReleaseModeTextField ''v1.2.3''))"
  let ?q = "wrap_payload ''<!here> publish Failed'' (Some ''#cb2431'')
              (section_text (getReleaseModeTextField ''v1.2.3''))"
  note th = release_mode_single_text [where w = push_world and jobName = "''release''"
      and status = "''success''" and mention = "[]" and mentionCondition = "[]"
      and commitFlag = False and created_tag = "''v1.2.3''" and token = None]
  have valid: "''success'' \<in> {''success'', ''failure'', ''cancelled''}"
    by simp
  from th [THEN conjunct1, rule_format, OF valid] obtain p
    where total: "generatePayload push_world ''release'' ''success'' [] [] False False True
                    ''v1.2.3'' None = ([], Inr p)"
    by blast
  have run: "generatePayload push_world ''release'' ''success'' [] [] False False True
               ''v1.2.3'' None = ([], Inr ?p)"
    by (simp add: run_defs sample_defs)
  then have run': "snd (generatePayload push_world ''release'' ''success'' [] [] False False
                          True ''v1.2.3'' None) = Inr ?p"
    by simp
  have other: "snd (generatePayload (pr_world ''feature'') ''publish'' ''failure'' ''here''
                      ''always'' True False True ''v1.2.3'' (Some ''t0ken'')) = Inr ?q"
    by (simp add: run_defs sample_defs)
  note both = th [THEN conjunct2, rule_format, OF run']
  from both [THEN conjunct1] both [THEN conjunct2, rule_format, OF other] run other total
  show ?thesis by simp
qed

section \<open>The commit that is looked up\<close>

text \<open>
  On any event but a pull request the ref is the commit SHA of the context. On a pull
  request it is the head ref after \<^const>\<open>replace_first\<close>: a leading \<^verbatim>\<open>refs/heads/\<close> is
  stripped and a head ref that does not contain \<^verbatim>\<open>refs/heads/\<close> is kept. The commit
  field shows the first line of the commit message, linked to the commit.
\<close>

lemma commitRef_other_event:
  "\<not> isPullRequest (github_context w) \<Longrightarrow> commitRef w = Inr (sha (github_context w))"
  by (simp add: commitRef_def)

lemma commitRef_pull_request:
  "isPullRequest (github_context w) \<Longrightarrow> GITHUB_HEAD_REF w = Some head_ref
     \<Longrightarrow> commitRef w = Inr (replace_first ''refs/heads/'' [] head_ref)"
  by (simp add: commitRef_def)

lemma replace_first_leading:
  "pat \<noteq> [] \<Longrightarrow> replace_first pat [] (pat @ s) = s"
  by (cases pat) simp_all

lemma replace_first_absent:
  "\<not> sublist pat s \<Longrightarrow> replace_first pat rep s = s"
  by (induction s) (auto simp: sublist_Cons_right)

lemma first_line_prefix: "prefix (first_line s) s"
  unfolding first_line_def by (metis prefixI takeWhile_dropWhile_id)

lemma first_line_no_LF: "LF \<notin> set (first_line s)"
  unfolding first_line_def by (auto dest: set_takeWhileD)

lemma first_line_stops:
  "first_line s = s \<or> prefix (first_line s @ [LF]) s"
proof (induction s)
  case Nil
  show ?case by (simp add: first_line_def)
next
  case (Cons c s)
  then show ?case by (auto simp: first_line_def)
qed

lemma getCommitFields_commit_text:
  assumes "commitRef w = Inr r"
    and "getCommit w token (repo_owner (github_context w)) (repo_repo (github_context w)) r
           = Inr commit"
  shows "\<exists>rest. getCommitFields w token
           = ([GetCommit token (repo_owner (github_context w))
                 (repo_repo (github_context w)) r],
              Inr (\<lparr>el_type = ''mrkdwn'',
                    el_text = ''*commit*'' @ [LF] @ ''<'' @ html_url commit @ ''|''
                      @ first_line (commit_message commit) @ ''>''\<rparr> # rest))"
  using assms
  by (simp add: getCommitFields_def Let_def commitFieldsOf_def commitField_def mrkdwn_def)

text \<open>
  Claim C9 says that on a pull request event the ref passed to the API is the head ref
  with a leading \<^verbatim>\<open>refs/heads/\<close> stripped. The head ref \<^verbatim>\<open>fix/refs/heads/x\<close> does not start
  with \<^verbatim>\<open>refs/heads/\<close>, so nothing is to be stripped; the code asks the API for the commit
  of \<^verbatim>\<open>fix/x\<close>, since its pattern is not anchored at the start of the string.
\<close>

theorem head_ref_inner_occurrence_removed:
  "isPullRequest (github_context (pr_world ''fix/refs/heads/x''))
   \<and> GITHUB_HEAD_REF (pr_world ''fix/refs/heads/x'') = Some ''fix/refs/heads/x''
   \<and> \<not> prefix ''refs/heads/'' ''fix/refs/heads/x''
   \<and> getCommitFields (pr_world ''fix/refs/heads/x'') ''t0ken''
       = ([GetCommit ''t0ken'' ''weseek'' ''slatify'' ''fix/x''],
          Inr (commitFieldsOf signed_commit))"
  by (simp add: getCommitFields_def commitRef_def isPullRequest_def Let_def sample_defs)

section \<open>Compact mode before release mode\<close>

lemma compact_text_not_release:
  "getCompactModeTextField c label \<noteq> getReleaseModeTextField tag"
  by (simp add: getCompactModeTextField_def getReleaseModeTextField_def mrkdwn_def)

text \<open>
  Claim C10. With compact mode and release mode both on, \<^const>\<open>generatePayload\<close> does
  what it does with compact mode alone, whatever the created tag, the commit flag and
  the token are: no network call is made, and a returned payload carries the compact
  text, which is never the release text.
\<close>

theorem compact_takes_precedence:
  "generatePayload w jobName status mention mentionCondition commitFlag True True
       created_tag token
     = generatePayload w jobName status mention mentionCondition commitFlag' True False
         created_tag' token'
   \<and> fst (generatePayload w jobName status mention mentionCondition commitFlag True True
            created_tag token) = []
   \<and> (\<forall>p. snd (generatePayload w jobName status mention mentionCondition commitFlag True
                 True created_tag token) = Inr p \<longrightarrow>
        (\<exists>label.
           member_result (Block_member (github_context w) status) = Inr label
           \<and> map blocks (attachments p)
               = [[section_text (getCompactModeTextField (github_context w) label)]]
           \<and> map blocks (attachments p)
               \<noteq> [[section_text (getReleaseModeTextField created_tag)]]))"
proof (intro conjI allI impI)
  show "generatePayload w jobName status mention mentionCondition commitFlag True True
          created_tag token
        = generatePayload w jobName status mention mentionCondition commitFlag' True False
            created_tag' token'"
    by (simp add: generatePayload_def Let_def split: sum.splits)
  show "fst (generatePayload w jobName status mention mentionCondition commitFlag True True
               created_tag token) = []"
    by (simp add: generatePayload_def Let_def split: sum.splits)
next
  fix p
  let ?c = "github_context w"
  assume run: "snd (generatePayload w jobName status mention mentionCondition commitFlag True
                      True created_tag token) = Inr p"
  from generatePayload_shape [OF run] obtain res
    where hres: "member_result (Block_member ?c status) = Inr res"
    by blast
  from run have "p = wrap_payload (summary_text jobName status mention mentionCondition res)
                       (member_color (Block_member ?c status))
                       (section_text (getCompactModeTextField ?c res))"
    by (simp add: generatePayload_compact [OF hres])
  then have b: "map blocks (attachments p) = [[section_text (getCompactModeTextField ?c res)]]"
    by (simp add: wrap_payload_def)
  have "section_text (getCompactModeTextField ?c res)
          \<noteq> section_text (getReleaseModeTextField created_tag)"
    by (simp add: section_text_def compact_text_not_release)
  with b hres
  show "\<exists>label.
           member_result (Block_member ?c status) = Inr label
           \<and> map blocks (attachments p) = [[section_text (getCompactModeTextField ?c label)]]
           \<and> map blocks (attachments p)
               \<noteq> [[section_text (getReleaseModeTextField created_tag)]]"
    by (intro exI [of _ res]) simp
qed

text \<open>Both modes requested on a successful push.\<close>

theorem compact_takes_precedence_witness:
  "snd (generatePayload push_world ''build'' ''success'' [] [] True True True ''v1.2.3''
          (Some ''t0ken''))
     = Inr (wrap_payload ''build Succeeded'' (Some ''#2cbe4e'')
              (section_text (getCompactModeTextField push_context (Some ''Succeeded''))))
   \<and> map blocks (attachments (wrap_payload ''build Succeeded'' (Some ''#2cbe4e'')
          (section_text (getCompactModeTextField push_context (Some ''Succeeded'')))))
       = [[section_text (getCompactModeTextField push_context (Some ''Succeeded''))]]
   \<and> map blocks (attachments (wrap_payload ''build Succeeded'' (Some ''#2cbe4e'')
          (section_text (getCompactModeTextField push_context (Some ''Succeeded'')))))
       \<noteq> [[section_text (getReleaseModeTextField ''v1.2.3'')]]
   \<and> fst (generatePayload push_world ''build'' ''success'' [] [] True True True ''v1.2.3''
          (Some ''t0ken'')) = []"
proof -
  let ?p = "wrap_payload ''build Succeeded'' (Some ''#2cbe4e'')
              (section_text (getCompactModeTextField push_context (Some ''Succeeded'')))"
  note th = compact_takes_precedence [where w = push_world and jobName = "''build''"
      and status = "''success''" and mention = "[]" and mentionCondition = "[]"
      and commitFlag = True and created_tag = "''v1.2.3''" and token = "Some ''t0ken''"
      and commitFlag' = True and created_tag' = "''v1.2.3''" and token' = "Some ''t0ken''"]
  have run: "snd (generatePayload push_world ''build'' ''success'' [] [] True True True
                    ''v1.2.3'' (Some ''t0ken'')) = Inr ?p"
    by (simp add: run_defs sample_defs)
  from th [THEN conjunct2, THEN conjunct2, rule_format, OF run]
  have body: "map blocks (attachments ?p)
          = [[section_text (getCompactModeTextField push_context (Some ''Succeeded''))]]"
    and other: "map blocks (attachments ?p)
          \<noteq> [[section_text (getReleaseModeTextField ''v1.2.3'')]]"
    by (auto simp: member_result_success sample_defs)
  from run body other th [THEN conjunct2, THEN conjunct1] show ?thesis
    by (intro conjI)
qed

end
